theory Spec2Isabelle
  imports Main "HOL-Library.AList" "HOL-Library.Char_ord" "HOL-Library.List_Lexorder"
begin

section \<open>The Jac walker manager (backend/jac_layer/jac_manager.py)\<close>

text \<open>
  A shallow embedding of class \<open>JacManager\<close>. Every method takes the state it reads and
  returns its result together with the state it leaves. A method that can raise returns
  \<open>Inl e\<close> for the exception \<open>e\<close>. The Python interpreter's side of the world (what an
  import finds, what a walker file contains, what a loaded function does when called) is
  the parameter \<open>env\<close>, so every theorem holds for every such world.
\<close>

subsection \<open>Python values, exceptions and objects\<close>

text \<open>Values that cross the interface: keyword parameters and returned data.\<close>

datatype pyvalue =
    VNone
  | VBool bool
  | VInt int
  | VStr string
  | VDict "(string \<times> pyvalue) list"

type_synonym pydict = "(string \<times> pyvalue) list"

text \<open>
  What Python code can raise, each with the text \<open>str(e)\<close> gives. The handlers of the
  source tell \<open>ImportError\<close> from every other instance of \<open>Exception\<close>, and an
  \<open>except Exception\<close> does not catch what derives from \<open>BaseException\<close> only:
  \<open>SystemExit\<close>, \<open>KeyboardInterrupt\<close> and the like. \<open>OtherException\<close> and
  \<open>OtherBaseException\<close> stand for the classes that have no constructor of their own here.
\<close>

datatype py_exception =
    ImportError string
  | ValueError string
  | TypeError string
  | NameError string
  | AttributeError string
  | OtherException string
  | SystemExit string
  | KeyboardInterrupt string
  | OtherBaseException string

fun str :: "py_exception \<Rightarrow> string" where
  "str (ImportError m) = m"
| "str (ValueError m) = m"
| "str (TypeError m) = m"
| "str (NameError m) = m"
| "str (AttributeError m) = m"
| "str (OtherException m) = m"
| "str (SystemExit m) = m"
| "str (KeyboardInterrupt m) = m"
| "str (OtherBaseException m) = m"

fun is_ImportError :: "py_exception \<Rightarrow> bool" where
  "is_ImportError (ImportError m) = True"
| "is_ImportError e = False"

text \<open>\<open>isinstance(e, Exception)\<close>: what an \<open>except Exception\<close> catches.\<close>

fun is_Exception :: "py_exception \<Rightarrow> bool" where
  "is_Exception (SystemExit m) = False"
| "is_Exception (KeyboardInterrupt m) = False"
| "is_Exception (OtherBaseException m) = False"
| "is_Exception e = True"

text \<open>
  An attribute of a handle: a function defined by loaded code (named, its behaviour is
  the world's), the closure \<open>fallback_method\<close> that strategy 4 creates, or an object that
  cannot be called (with the name of its type).
\<close>

datatype attr_value =
    PyFunction string
  | FallbackMethod
  | NonCallable string

fun callable :: "attr_value \<Rightarrow> bool" where
  "callable (PyFunction f) = True"
| "callable FallbackMethod = True"
| "callable (NonCallable t) = False"

text \<open>
  What \<open>self.modules\<close> holds: a real module (strategies 1 and 2), an instance of the local
  class \<open>WalkerModule\<close> (strategy 3) or of \<open>DummyWalkerModule\<close> (strategy 4), with its
  attributes in the order they were set. None of the three defines \<open>__bool__\<close> or
  \<open>__len__\<close>, so every handle is truthy.
\<close>

datatype handle_kind = Module | WalkerModule | DummyWalkerModule

record handle =
  kind :: handle_kind
  attrs :: "(string \<times> attr_value) list"

definition setattr :: "handle \<Rightarrow> string \<Rightarrow> attr_value \<Rightarrow> handle" where
  "setattr module key v = module\<lparr>attrs := AList.update key v (attrs module)\<rparr>"

definition getattr :: "handle \<Rightarrow> string \<Rightarrow> attr_value option" where
  "getattr module key = map_of (attrs module) key"

definition hasattr :: "handle \<Rightarrow> string \<Rightarrow> bool" where
  "hasattr module key = (getattr module key \<noteq> None)"

text \<open>\<open>dir(module)\<close>: the attribute names, sorted.\<close>

definition dir_names :: "handle \<Rightarrow> string list" where
  "dir_names module = sort (remdups (map fst (attrs module)))"

text \<open>\<open>attr.startswith('_')\<close>\<close>

fun startswith_underscore :: "string \<Rightarrow> bool" where
  "startswith_underscore [] = False"
| "startswith_underscore (c # cs) = (c = CHR ''_'')"

text \<open>
  The comprehension that \<open>get_available_functions\<close> and \<open>execute_walker\<close> share:
  \<open>[attr for attr in dir(module) if callable(getattr(module, attr)) and not attr.startswith('_')]\<close>
\<close>

definition public_callables :: "handle \<Rightarrow> string list" where
  "public_callables module =
     filter (\<lambda>attr. (case getattr module attr of None \<Rightarrow> False | Some v \<Rightarrow> callable v)
                     \<and> \<not> startswith_underscore attr)
       (dir_names module)"

subsection \<open>The world outside the manager\<close>

datatype import_outcome =
    Imported "(string \<times> attr_value) list"
  | Import_raises py_exception

text \<open>
  Strategy 3 on one walker file: the file is not there, or reading or executing it raises,
  or \<open>exec\<close> leaves a namespace.
\<close>

datatype source_outcome =
    File_missing
  | Exec_raises py_exception
  | Executed "(string \<times> attr_value) list"

text \<open>
  \<open>importlib.reload\<close> on a real module runs the module's code again in the module's own
  namespace: the namespace it leaves, and the exception if the code raised on the way.
  Two module objects are two things to reload even when their attributes are equal, so
  the world is asked about a module by the name it is cached under together with what
  it holds.
\<close>

datatype reload_outcome =
    Reloaded "(string \<times> attr_value) list"
  | Reload_raises py_exception "(string \<times> attr_value) list"

text \<open>
  \<open>import_module\<close> is \<open>importlib.import_module\<close> at the moment the constructor calls it:
  strategy 1 asks for the dotted path and strategy 2, once the walker directory is on
  \<open>sys.path\<close>, for the bare name, so one function of the requested name covers both.
  \<open>call_function\<close> is the call \<open>f(**parameters)\<close> of a loaded function: it returns a value or
  raises, and it is code of its own, which can set attributes of its module and can
  reach the manager's dictionary \<open>modules\<close>. So the call is given the cache as it is and
  says what cache it leaves (names and handles).
\<close>

record env =
  base_dir :: string
  import_module :: "string \<Rightarrow> import_outcome"
  exec_walker_file :: "string \<Rightarrow> source_outcome"
  call_function ::
    "string \<Rightarrow> pydict \<Rightarrow> (string \<times> handle) list \<Rightarrow> (py_exception + pyvalue) \<times> (string \<times> handle) list"
  reload_module :: "string \<Rightarrow> handle \<Rightarrow> reload_outcome"

subsection \<open>The manager's state\<close>

text \<open>One constructor for each call of \<open>logger\<close> in the class, with the values it formats.\<close>

datatype log_record =
    Info_loaded_jac_module string
  | Warning_strategy1_failed string string
  | Info_loaded_strategy2 string
  | Warning_strategy2_failed string string
  | Info_loaded_strategy3 string
  | Error_strategy3_failed string string
  | Warning_creating_dummy string
  | Info_created_dummy string
  | Error_unexpected_initializing string string
  | Info_executing_walker string pydict
  | Info_using_fallback_function string string
  | Info_walker_completed string
  | Error_executing_walker string string
  | Error_reload_failed string
  | Info_health_check nat nat
  | Info_health_loaded string
  | Warning_health_not_loaded string
  | Warning_health_no_walkers

text \<open>
  \<open>modules\<close> and \<open>walker_map\<close> are the two dictionaries of the instance, in insertion order.
  \<open>closure_name\<close> and \<open>closure_method_name\<close> are the local variables \<open>name\<close> and
  \<open>method_name\<close> of \<open>_initialize_walkers\<close>: every \<open>fallback_method\<close> closes over these two
  variables (not over their values when it was defined) and reads them when it is called.
  \<open>logged\<close> is what the logger has received, oldest first.
\<close>

record jac_state =
  modules :: "(string \<times> handle) list"
  walker_map :: "(string \<times> string) list"
  closure_name :: "string option"
  closure_method_name :: "string option"
  logged :: "log_record list"

definition emit :: "log_record \<Rightarrow> jac_state \<Rightarrow> jac_state" where
  "emit r st = st\<lparr>logged := logged st @ [r]\<rparr>"

text \<open>\<open>self.modules[name] = module\<close>\<close>

definition store_module :: "string \<Rightarrow> handle \<Rightarrow> jac_state \<Rightarrow> jac_state" where
  "store_module name module st = st\<lparr>modules := AList.update name module (modules st)\<rparr>"

subsection \<open>The constructor and \<open>_initialize_walkers\<close>\<close>

definition walker_map_default :: "(string \<times> string) list" where
  "walker_map_default =
     [(''orchestrator'', ''jac_layer.walkers.orchestrator''),
      (''content_curator'', ''jac_layer.walkers.content_curator''),
      (''quiz_master'', ''jac_layer.walkers.quiz_master''),
      (''evaluator'', ''jac_layer.walkers.evaluator''),
      (''progress_tracker'', ''jac_layer.walkers.progress_tracker''),
      (''motivator'', ''jac_layer.walkers.motivator'')]"

definition fallback_methods :: "(string \<times> string list) list" where
  "fallback_methods =
     [(''orchestrator'',
         [''init_user_graph'', ''start_lesson_sequence'', ''coordinate_learning_workflow'']),
      (''content_curator'',
         [''get_lesson_content'', ''create_learning_material'', ''adapt_content_difficulty'']),
      (''quiz_master'',
         [''generate_adaptive_quiz'', ''create_question_set'', ''evaluate_quiz_performance'']),
      (''evaluator'',
         [''evaluate_code_response'', ''evaluate_text_response'', ''provide_feedback'']),
      (''progress_tracker'',
         [''track_lesson_progress'', ''update_mastery_scores'', ''get_learning_analytics'']),
      (''motivator'',
         [''generate_motivational_message'', ''create_encouragement'', ''track_achievements''])]"

text \<open>\<open>fallback_methods.get(name, ['execute'])\<close>\<close>

definition walker_methods :: "string \<Rightarrow> string list" where
  "walker_methods name =
     (case map_of fallback_methods name of None \<Rightarrow> [''execute''] | Some ms \<Rightarrow> ms)"

text \<open>
  \<open>os.path.join(settings.BASE_DIR, 'jac_layer', 'walkers', f'{name}.jac')\<close> on a POSIX
  system: a separator goes after a part unless the part is empty or ends in one.
\<close>

definition os_path_join :: "string \<Rightarrow> string \<Rightarrow> string" where
  "os_path_join a b =
     (if a = [] \<or> last a = CHR ''/'' then a @ b else a @ ''/'' @ b)"

definition walker_file :: "env \<Rightarrow> string \<Rightarrow> string" where
  "walker_file e name =
     os_path_join (os_path_join (os_path_join (base_dir e) ''jac_layer'') ''walkers'')
       (name @ ''.jac'')"

text \<open>
  The loop of strategy 4 over \<open>walker_methods\<close>: each round assigns the variable
  \<open>method_name\<close>, defines \<open>fallback_method\<close> and sets it on the dummy module.
\<close>

fun set_fallback_methods :: "string list \<Rightarrow> handle \<Rightarrow> jac_state \<Rightarrow> handle \<times> jac_state" where
  "set_fallback_methods [] module st = (module, st)"
| "set_fallback_methods (method_name # rest) module st =
     set_fallback_methods rest (setattr module method_name FallbackMethod)
       (st\<lparr>closure_method_name := Some method_name\<rparr>)"

text \<open>Strategy 4: the dummy module. Nothing in it raises.\<close>

definition strategy4 :: "string \<Rightarrow> jac_state \<Rightarrow> jac_state" where
  "strategy4 name st =
     (case set_fallback_methods (walker_methods name)
             \<lparr>kind = DummyWalkerModule, attrs = []\<rparr>
             (emit (Warning_creating_dummy name) st) of
        (module, st') \<Rightarrow> emit (Info_created_dummy name) (store_module name module st'))"

text \<open>
  The loop of strategy 3 over the namespace \<open>exec\<close> left: public callables become
  attributes of the \<open>WalkerModule\<close> instance.
\<close>

fun copy_callables :: "(string \<times> attr_value) list \<Rightarrow> handle \<Rightarrow> handle" where
  "copy_callables [] module = module"
| "copy_callables ((key, v) # rest) module =
     copy_callables rest
       (if \<not> startswith_underscore key \<and> callable v then setattr module key v else module)"

text \<open>
  Strategy 3, under \<open>except Exception as e3\<close>: a missing file raises \<open>ImportError\<close> inside
  the \<open>try\<close>, and that and every other instance of \<open>Exception\<close> go on to strategy 4.
  What is not an \<open>Exception\<close> leaves \<open>_initialize_walkers\<close>.
\<close>

definition strategy3 :: "env \<Rightarrow> string \<Rightarrow> jac_state \<Rightarrow> py_exception + jac_state" where
  "strategy3 e name st =
     (case exec_walker_file e (walker_file e name) of
        Executed namespace \<Rightarrow>
          Inr (emit (Info_loaded_strategy3 name)
                 (store_module name
                    (copy_callables namespace \<lparr>kind = WalkerModule, attrs = []\<rparr>) st))
      | File_missing \<Rightarrow>
          Inr (strategy4 name
                 (emit (Error_strategy3_failed name
                          (str (ImportError (''Walker file not found: '' @ walker_file e name))))
                    st))
      | Exec_raises e3 \<Rightarrow>
          (if is_Exception e3
           then Inr (strategy4 name (emit (Error_strategy3_failed name (str e3)) st))
           else Inl e3))"

text \<open>
  Strategy 2, under \<open>except ImportError as e2\<close> only. It runs inside the handler of
  strategy 1, where the last \<open>except Exception\<close> of the outer \<open>try\<close> does not reach: any
  other exception leaves \<open>_initialize_walkers\<close> and the constructor.
\<close>

definition strategy2 :: "env \<Rightarrow> string \<Rightarrow> jac_state \<Rightarrow> py_exception + jac_state" where
  "strategy2 e name st =
     (case import_module e name of
        Imported a \<Rightarrow>
          Inr (emit (Info_loaded_strategy2 name)
                 (store_module name \<lparr>kind = Module, attrs = a\<rparr> st))
      | Import_raises e2 \<Rightarrow>
          (if is_ImportError e2
           then strategy3 e name (emit (Warning_strategy2_failed name (str e2)) st)
           else Inl e2))"

text \<open>
  The body of the loop for one entry of \<open>walker_map\<close>. The loop assigns \<open>name\<close>; strategy 1
  is under \<open>except ImportError\<close> (go on to strategy 2) and \<open>except Exception\<close> (log
  "Unexpected error initializing" and store nothing). What is not an \<open>Exception\<close> leaves
  \<open>_initialize_walkers\<close>.
\<close>

definition resolve_walker :: "env \<Rightarrow> string \<Rightarrow> string \<Rightarrow> jac_state \<Rightarrow> py_exception + jac_state" where
  "resolve_walker e name module_path st0 =
     (let st = st0\<lparr>closure_name := Some name\<rparr> in
      case import_module e module_path of
        Imported a \<Rightarrow>
          Inr (emit (Info_loaded_jac_module name)
                 (store_module name \<lparr>kind = Module, attrs = a\<rparr> st))
      | Import_raises e1 \<Rightarrow>
          (if is_ImportError e1
           then strategy2 e name (emit (Warning_strategy1_failed name (str e1)) st)
           else if is_Exception e1
           then Inr (emit (Error_unexpected_initializing name (str e1)) st)
           else Inl e1))"

fun initialize_loop :: "env \<Rightarrow> (string \<times> string) list \<Rightarrow> jac_state \<Rightarrow> py_exception + jac_state" where
  "initialize_loop e [] st = Inr st"
| "initialize_loop e ((name, module_path) # rest) st =
     (case resolve_walker e name module_path st of
        Inl x \<Rightarrow> Inl x
      | Inr st' \<Rightarrow> initialize_loop e rest st')"

definition initialize_walkers :: "env \<Rightarrow> jac_state \<Rightarrow> py_exception + jac_state" where
  "initialize_walkers e st = initialize_loop e (walker_map st) st"

text \<open>\<open>JacManager.__init__\<close>: an exception of \<open>_initialize_walkers\<close> leaves no manager.\<close>

definition JacManager_init :: "env \<Rightarrow> py_exception + jac_state" where
  "JacManager_init e =
     initialize_walkers e
       \<lparr>modules = [], walker_map = walker_map_default,
        closure_name = None, closure_method_name = None, logged = []\<rparr>"

subsection \<open>Lookup and introspection\<close>

text \<open>\<open>get_walker_module\<close>: \<open>self.modules.get(module_name)\<close>, and \<open>ValueError\<close> when there is none.\<close>

definition get_walker_module :: "jac_state \<Rightarrow> string \<Rightarrow> (py_exception + handle) \<times> jac_state" where
  "get_walker_module st module_name =
     (case map_of (modules st) module_name of
        None \<Rightarrow> (Inl (ValueError (''Module '' @ module_name @ '' is not loaded.'')), st)
      | Some module \<Rightarrow> (Inr module, st))"

definition get_available_functions :: "jac_state \<Rightarrow> string \<Rightarrow> (py_exception + string list) \<times> jac_state" where
  "get_available_functions st walker_name =
     (case map_of (modules st) walker_name of
        None \<Rightarrow> (Inr [], st)
      | Some module \<Rightarrow> (Inr (public_callables module), st))"

text \<open>\<open>get_available_walkers\<close>: \<open>{name: {'loaded': True} for name in self.modules.keys()}\<close>\<close>

definition get_available_walkers :: "jac_state \<Rightarrow> (py_exception + pydict) \<times> jac_state" where
  "get_available_walkers st =
     (Inr (map (\<lambda>name. (name, VDict [(''loaded'', VBool True)])) (map fst (modules st))), st)"

subsection \<open>\<open>execute_walker\<close>\<close>

definition function_mapping :: "(string \<times> string) list" where
  "function_mapping =
     [(''orchestrator'', ''init_user_graph''),
      (''content_curator'', ''get_lesson_content''),
      (''quiz_master'', ''generate_adaptive_quiz''),
      (''evaluator'', ''evaluate_code_response''),
      (''progress_tracker'', ''track_lesson_progress''),
      (''motivator'', ''generate_motivational_message'')]"

text \<open>\<open>function_mapping.get(walker_name, f"{walker_name}_execute")\<close>\<close>

definition default_function_name :: "string \<Rightarrow> string" where
  "default_function_name walker_name =
     (case map_of function_mapping walker_name of
        None \<Rightarrow> walker_name @ ''_execute''
      | Some f \<Rightarrow> f)"

text \<open>A name between single quotes, as the messages of the source print it.\<close>

definition quoted :: "string \<Rightarrow> string" where
  "quoted s = CHR 0x27 # s @ [CHR 0x27]"

text \<open>
  The closure \<open>fallback_method(**kwargs)\<close>, called in state \<open>st\<close>: it reads the variables
  \<open>name\<close> and \<open>method_name\<close> of \<open>_initialize_walkers\<close> as they are now.
\<close>

definition fallback_method :: "jac_state \<Rightarrow> pydict \<Rightarrow> py_exception + pyvalue" where
  "fallback_method st kwargs =
     (case closure_name st of
        None \<Rightarrow> Inl (NameError ''name'')
      | Some name \<Rightarrow>
          (case closure_method_name st of
             None \<Rightarrow> Inl (NameError ''method_name'')
           | Some method_name \<Rightarrow>
               Inr (VDict
                 [(''status'', VStr ''fallback''),
                  (''walker'', VStr name),
                  (''method'', VStr method_name),
                  (''message'', VStr (''Walker '' @ name @ '' is running in fallback mode'')),
                  (''parameters'', VDict kwargs),
                  (''timestamp'', VStr ''2025-12-04T17:47:44Z'')])))"

text \<open>
  The call \<open>walker_function(**parameters)\<close> of an attribute's value: what it returns or
  raises, and the cache it leaves. A loaded function is the world's; a fallback method
  and the failed call of an object that is not callable leave the cache as it is.
\<close>

fun call_attr ::
  "env \<Rightarrow> jac_state \<Rightarrow> attr_value \<Rightarrow> pydict \<Rightarrow> (py_exception + pyvalue) \<times> (string \<times> handle) list" where
  "call_attr e st (PyFunction f) parameters = call_function e f parameters (modules st)"
| "call_attr e st FallbackMethod parameters = (fallback_method st parameters, modules st)"
| "call_attr e st (NonCallable t) parameters =
     (Inl (TypeError (quoted t @ '' object is not callable'')), modules st)"

text \<open>Steps 4 and 5 and the \<open>return\<close> of the \<open>try\<close> block.\<close>

definition call_walker_function ::
  "env \<Rightarrow> jac_state \<Rightarrow> string \<Rightarrow> handle \<Rightarrow> string \<Rightarrow> pydict \<Rightarrow> (py_exception + pydict) \<times> jac_state" where
  "call_walker_function e st walker_name module function_name parameters =
     (case getattr module function_name of
        None \<Rightarrow> (Inl (AttributeError function_name), st)
      | Some walker_function \<Rightarrow>
          (case call_attr e st walker_function parameters of
             (Inl x, cache) \<Rightarrow> (Inl x, st\<lparr>modules := cache\<rparr>)
           | (Inr result_data, cache) \<Rightarrow>
               (Inr [(''status'', VStr ''success''),
                     (''data'', result_data),
                     (''walker_name'', VStr walker_name),
                     (''function_called'', VStr function_name)],
                emit (Info_walker_completed walker_name) (st\<lparr>modules := cache\<rparr>))))"

text \<open>The \<open>try\<close> block of \<open>execute_walker\<close>, steps 1 to 3.\<close>

definition execute_walker_try ::
  "env \<Rightarrow> jac_state \<Rightarrow> string \<Rightarrow> pydict \<Rightarrow> (py_exception + pydict) \<times> jac_state" where
  "execute_walker_try e st walker_name parameters =
     (case map_of (modules st) walker_name of
        None \<Rightarrow>
          (Inl (ValueError (''Walker module '' @ quoted walker_name @ '' is not loaded.'')), st)
      | Some module \<Rightarrow>
          (let st1 = emit (Info_executing_walker walker_name parameters) st;
               function_name = default_function_name walker_name
           in if \<not> hasattr module function_name
              then (case public_callables module of
                      [] \<Rightarrow>
                        (Inl (ValueError (''No callable functions found in module ''
                                           @ quoted walker_name)), st1)
                    | first # others \<Rightarrow>
                        call_walker_function e
                          (emit (Info_using_fallback_function first walker_name) st1)
                          walker_name module first parameters)
              else call_walker_function e st1 walker_name module function_name parameters))"

text \<open>The dictionary that the handler of \<open>execute_walker\<close> returns.\<close>

definition error_result :: "string \<Rightarrow> string \<Rightarrow> pydict" where
  "error_result message walker_name =
     [(''status'', VStr ''error''),
      (''message'', VStr message),
      (''walker_name'', VStr walker_name)]"

text \<open>
  \<open>execute_walker\<close>: \<open>None\<close> for the parameters is the empty dictionary, and
  \<open>except Exception as e\<close> turns every instance of \<open>Exception\<close> that the \<open>try\<close> block
  raises into an error result. What is not an \<open>Exception\<close> goes on to the caller.
\<close>

definition execute_walker ::
  "env \<Rightarrow> jac_state \<Rightarrow> string \<Rightarrow> pydict option \<Rightarrow> (py_exception + pydict) \<times> jac_state" where
  "execute_walker e st walker_name parameters_arg =
     (let parameters = (case parameters_arg of None \<Rightarrow> [] | Some p \<Rightarrow> p) in
      case execute_walker_try e st walker_name parameters of
        (Inr result, st') \<Rightarrow> (Inr result, st')
      | (Inl x, st') \<Rightarrow>
          (if is_Exception x
           then (Inr (error_result (str x) walker_name),
                 emit (Error_executing_walker walker_name (str x)) st')
           else (Inl x, st')))"

subsection \<open>\<open>reload_walkers\<close> and \<open>health_check\<close>\<close>




text \<open>The loop of \<open>health_check\<close> over \<open>self.walker_map.keys()\<close>: one log line for each name.\<close>

fun health_lines :: "string list \<Rightarrow> jac_state \<Rightarrow> jac_state" where
  "health_lines [] st = st"
| "health_lines (name # rest) st =
     health_lines rest
       (if map_of (modules st) name \<noteq> None
        then emit (Info_health_loaded name) st
        else emit (Warning_health_not_loaded name) st)"

definition health_check :: "jac_state \<Rightarrow> (py_exception + bool) \<times> jac_state" where
  "health_check st =
     (let loaded_count = length (modules st);
          total_count = length (walker_map st)
      in (Inr (loaded_count > 0),
          if loaded_count > 0
          then health_lines (map fst (walker_map st))
                 (emit (Info_health_check loaded_count total_count) st)
          else emit Warning_health_no_walkers st))"

subsection \<open>What the log and the outcomes say\<close>

text \<open>
  Whether a handle is stored for a name whose strategy 1 ended this way, when the loop
  goes on: it is not when strategy 1 raised something that is not an \<open>ImportError\<close>.
\<close>

fun raises_other :: "import_outcome \<Rightarrow> bool" where
  "raises_other (Imported a) = False"
| "raises_other (Import_raises x) = (\<not> is_ImportError x)"

text \<open>
  The exception, if there is one, that leaves the loop body of \<open>_initialize_walkers\<close>
  for one entry of \<open>walker_map\<close>, read off the handlers: from strategy 1, what is not an
  \<open>Exception\<close>; from strategy 2 (reached on \<open>ImportError\<close>), what is not an \<open>ImportError\<close>;
  from strategy 3 (reached on \<open>ImportError\<close> again), what is not an \<open>Exception\<close>.
\<close>

definition escaping :: "env \<Rightarrow> string \<Rightarrow> string \<Rightarrow> py_exception option" where
  "escaping e name module_path =
     (case import_module e module_path of
        Imported a \<Rightarrow> None
      | Import_raises e1 \<Rightarrow>
          (if is_ImportError e1
           then (case import_module e name of
                   Imported a \<Rightarrow> None
                 | Import_raises e2 \<Rightarrow>
                     (if is_ImportError e2
                      then (case exec_walker_file e (walker_file e name) of
                              Exec_raises e3 \<Rightarrow> (if is_Exception e3 then None else Some e3)
                            | File_missing \<Rightarrow> None
                            | Executed namespace \<Rightarrow> None)
                      else Some e2))
           else if is_Exception e1 then None else Some e1))"

text \<open>
  The kind of handle the strategies after the first leave for a name: a module from
  strategy 2, a \<open>WalkerModule\<close> from strategy 3, the dummy from strategy 4.
\<close>

definition later_kind :: "env \<Rightarrow> string \<Rightarrow> handle_kind" where
  "later_kind e name =
     (case import_module e name of
        Imported a \<Rightarrow> Module
      | Import_raises e2 \<Rightarrow>
          (case exec_walker_file e (walker_file e name) of
             Executed namespace \<Rightarrow> WalkerModule
           | File_missing \<Rightarrow> DummyWalkerModule
           | Exec_raises e3 \<Rightarrow> DummyWalkerModule))"

text \<open>
  Every run of the resolver pipeline for a name starts with strategy 1, and strategy 1
  logs exactly one of three records for the name. Counting them counts the runs.
\<close>

fun strategy1_record :: "string \<Rightarrow> log_record \<Rightarrow> bool" where
  "strategy1_record n (Info_loaded_jac_module m) = (m = n)"
| "strategy1_record n (Warning_strategy1_failed m x) = (m = n)"
| "strategy1_record n (Error_unexpected_initializing m x) = (m = n)"
| "strategy1_record n r = False"

definition pipeline_runs :: "log_record list \<Rightarrow> string \<Rightarrow> nat" where
  "pipeline_runs l n = length (filter (strategy1_record n) l)"

text \<open>
  The function name that steps 2 and 3 of \<open>execute_walker\<close> arrive at for a cached module:
  the default for the walker when the module has an attribute of that name (callable or
  not), else the first public callable in the order of \<open>dir\<close>; \<open>None\<close> when there is neither.
\<close>

definition selected_function_name :: "string \<Rightarrow> handle \<Rightarrow> string option" where
  "selected_function_name walker_name module =
     (if hasattr module (default_function_name walker_name)
      then Some (default_function_name walker_name)
      else (case public_callables module of [] \<Rightarrow> None | first # others \<Rightarrow> Some first))"

text \<open>
  The selection rule in the words of the specification (section 4.4), written down to be
  compared with the code: the hint when the handle exposes an operation of that name,
  else the default of the capability when the mapping has one, else the first operation
  the handle lists, and no operation when it lists none.
\<close>

definition spec_select_operation :: "string option \<Rightarrow> string \<Rightarrow> handle \<Rightarrow> string option" where
  "spec_select_operation operation_hint name module =
     (let by_default =
            (case map_of function_mapping name of
               Some d \<Rightarrow> Some d
             | None \<Rightarrow> (case public_callables module of [] \<Rightarrow> None | first # others \<Rightarrow> Some first))
      in case operation_hint of
           None \<Rightarrow> by_default
         | Some op \<Rightarrow> if op \<in> set (public_callables module) then Some op else by_default)"



subsection \<open>Notions for the proofs\<close>

text \<open>What one step of the resolver leaves, when it returns.\<close>

definition step_frame :: "jac_state \<Rightarrow> jac_state \<Rightarrow> bool" where
  "step_frame st st' \<longleftrightarrow>
     walker_map st' = walker_map st \<and> closure_name st' = closure_name st \<and>
     (\<forall>m. pipeline_runs (logged st') m = pipeline_runs (logged st) m) \<and>
     set (logged st) \<subseteq> set (logged st')"

text \<open>What the constructor's loop leaves for one entry.\<close>

definition resolved :: "env \<Rightarrow> string \<Rightarrow> string \<Rightarrow> jac_state \<Rightarrow> jac_state \<Rightarrow> bool" where
  "resolved e n p st st' \<longleftrightarrow>
     (case import_module e p of
        Imported a \<Rightarrow> map_of (modules st') n = Some \<lparr>kind = Module, attrs = a\<rparr>
      | Import_raises x \<Rightarrow>
          if is_ImportError x
          then (\<exists>h. map_of (modules st') n = Some h \<and> kind h = later_kind e n)
          else map_of (modules st') n = map_of (modules st) n \<and>
               Error_unexpected_initializing n (str x) \<in> set (logged st'))"

text \<open>The state in which the constructor calls \<open>_initialize_walkers\<close>.\<close>

definition initial_state :: jac_state where
  "initial_state =
     \<lparr>modules = [], walker_map = walker_map_default,
      closure_name = None, closure_method_name = None, logged = []\<rparr>"

subsection \<open>Worlds for the examples\<close>

text \<open>No walker can be imported and no walker file exists: every name ends at strategy 4.\<close>

definition env_nothing_present :: env where
  "env_nothing_present =
     \<lparr>base_dir = ''/app'',
      import_module = (\<lambda>n. Import_raises (ImportError (''No module named '' @ n))),
      exec_walker_file = (\<lambda>p. File_missing),
      call_function = (\<lambda>f kw cache. (Inr VNone, cache)),
      reload_module = (\<lambda>n h. Reloaded (attrs h))\<rparr>"

text \<open>
  As before, but importing the orchestrator's module raises an exception that is not an
  \<open>ImportError\<close> (the compiler rejects the file).
\<close>

definition env_orchestrator_rejected :: env where
  "env_orchestrator_rejected =
     env_nothing_present
       \<lparr>import_module := (\<lambda>n. if n = ''jac_layer.walkers.orchestrator''
                               then Import_raises (OtherException ''invalid syntax'')
                               else Import_raises (ImportError (''No module named '' @ n)))\<rparr>"

text \<open>
  Every module can be imported and has the two functions \<open>init_user_graph\<close> and
  \<open>start_lesson_sequence\<close>; a call returns its keyword parameters.
\<close>

definition env_all_importable :: env where
  "env_all_importable =
     \<lparr>base_dir = ''/app'',
      import_module = (\<lambda>n. Imported [(''init_user_graph'', PyFunction ''init_user_graph''),
                                       (''start_lesson_sequence'', PyFunction ''start_lesson_sequence'')]),
      exec_walker_file = (\<lambda>p. File_missing),
      call_function = (\<lambda>f kw cache. (Inr (VDict kw), cache)),
      reload_module = (\<lambda>n h. Reloaded (attrs h))\<rparr>"

text \<open>As before, but every call raises \<open>ValueError("boom")\<close>.\<close>

definition env_boom :: env where
  "env_boom =
     env_all_importable\<lparr>call_function := (\<lambda>f kw cache. (Inl (ValueError ''boom''), cache))\<rparr>"

text \<open>As before, but every call ends in \<open>sys.exit("bye")\<close>.\<close>

definition env_exit :: env where
  "env_exit =
     env_all_importable\<lparr>call_function := (\<lambda>f kw cache. (Inl (SystemExit ''bye''), cache))\<rparr>"

text \<open>As before, but every call empties the manager's \<open>modules\<close> and returns \<open>None\<close>.\<close>

definition env_clears_cache :: env where
  "env_clears_cache =
     env_all_importable\<lparr>call_function := (\<lambda>f kw cache. (Inr VNone, []))\<rparr>"

text \<open>
  No walker file exists; the orchestrator's dotted path is not found, and importing it
  by its bare name raises an exception that is not an \<open>ImportError\<close>.
\<close>

definition env_strategy2_breaks :: env where
  "env_strategy2_breaks =
     env_nothing_present
       \<lparr>import_module := (\<lambda>n. if n = ''orchestrator''
                               then Import_raises (OtherException ''invalid syntax'')
                               else Import_raises (ImportError (''No module named '' @ n)))\<rparr>"



section \<open>Properties\<close>

subsection \<open>What each step of the resolver leaves\<close>

lemma emit_fields [simp]:
  "modules (emit r st) = modules st"
  "walker_map (emit r st) = walker_map st"
  "closure_name (emit r st) = closure_name st"
  "closure_method_name (emit r st) = closure_method_name st"
  "logged (emit r st) = logged st @ [r]"
  by (simp_all add: emit_def)

lemma store_module_fields [simp]:
  "modules (store_module n h st) = AList.update n h (modules st)"
  "walker_map (store_module n h st) = walker_map st"
  "closure_name (store_module n h st) = closure_name st"
  "closure_method_name (store_module n h st) = closure_method_name st"
  "logged (store_module n h st) = logged st"
  by (simp_all add: store_module_def)

lemma pipeline_runs_simps [simp]:
  "pipeline_runs [] n = 0"
  "pipeline_runs (r # l) n = (if strategy1_record n r then 1 else 0) + pipeline_runs l n"
  "pipeline_runs (l @ l') n = pipeline_runs l n + pipeline_runs l' n"
  by (simp_all add: pipeline_runs_def)

lemma set_fallback_methods_frame:
  "modules (snd (set_fallback_methods ms h st)) = modules st \<and>
   walker_map (snd (set_fallback_methods ms h st)) = walker_map st \<and>
   logged (snd (set_fallback_methods ms h st)) = logged st \<and>
   closure_name (snd (set_fallback_methods ms h st)) = closure_name st"
  by (induction ms arbitrary: h st) simp_all

lemma set_fallback_methods_kind:
  "kind (fst (set_fallback_methods ms h st)) = kind h"
  by (induction ms arbitrary: h st) (simp_all add: setattr_def)

lemma copy_callables_kind: "kind (copy_callables ns h) = kind h"
  by (induction ns arbitrary: h) (auto simp: setattr_def)

lemma strategy4_modules:
  "\<exists>h. modules (strategy4 n st) = AList.update n h (modules st) \<and> kind h = DummyWalkerModule"
proof -
  obtain h st' where r: "set_fallback_methods (walker_methods n)
      \<lparr>kind = DummyWalkerModule, attrs = []\<rparr> (emit (Warning_creating_dummy n) st) = (h, st')"
    by (cases "set_fallback_methods (walker_methods n)
      \<lparr>kind = DummyWalkerModule, attrs = []\<rparr> (emit (Warning_creating_dummy n) st)")
  have "kind h = DummyWalkerModule"
    using set_fallback_methods_kind [of "walker_methods n" "\<lparr>kind = DummyWalkerModule, attrs = []\<rparr>"
        "emit (Warning_creating_dummy n) st"] r by simp
  moreover have "modules st' = modules st"
    using set_fallback_methods_frame [of "walker_methods n" "\<lparr>kind = DummyWalkerModule, attrs = []\<rparr>"
        "emit (Warning_creating_dummy n) st"] r by simp
  ultimately show ?thesis
    by (auto simp: strategy4_def r)
qed

lemma strategy4_frame:
  "walker_map (strategy4 n st) = walker_map st \<and>
   closure_name (strategy4 n st) = closure_name st \<and>
   pipeline_runs (logged (strategy4 n st)) m = pipeline_runs (logged st) m \<and>
   set (logged st) \<subseteq> set (logged (strategy4 n st))"
proof -
  obtain h st' where r: "set_fallback_methods (walker_methods n)
      \<lparr>kind = DummyWalkerModule, attrs = []\<rparr> (emit (Warning_creating_dummy n) st) = (h, st')"
    by (cases "set_fallback_methods (walker_methods n)
      \<lparr>kind = DummyWalkerModule, attrs = []\<rparr> (emit (Warning_creating_dummy n) st)")
  have "walker_map st' = walker_map st \<and> logged st' = logged st @ [Warning_creating_dummy n]
      \<and> closure_name st' = closure_name st"
    using set_fallback_methods_frame [of "walker_methods n" "\<lparr>kind = DummyWalkerModule, attrs = []\<rparr>"
        "emit (Warning_creating_dummy n) st"] r by simp
  then show ?thesis
    by (auto simp: strategy4_def r)
qed

lemma strategy3_Inr:
  assumes "strategy3 e n st = Inr st'"
  shows "(\<exists>h. modules st' = AList.update n h (modules st) \<and>
            kind h = (case exec_walker_file e (walker_file e n) of
                        Executed ns \<Rightarrow> WalkerModule
                      | File_missing \<Rightarrow> DummyWalkerModule
                      | Exec_raises x \<Rightarrow> DummyWalkerModule)) \<and>
         step_frame st st'"
proof (cases "exec_walker_file e (walker_file e n)")
  case File_missing
  let ?st1 = "emit (Error_strategy3_failed n
        (str (ImportError (''Walker file not found: '' @ walker_file e n)))) st"
  from assms File_missing have st': "st' = strategy4 n ?st1"
    by (simp add: strategy3_def del: str.simps)
  show ?thesis
    using strategy4_modules [of n ?st1] strategy4_frame [of n ?st1]
    by (auto simp: st' File_missing step_frame_def simp del: str.simps)
next
  case (Exec_raises x)
  let ?st1 = "emit (Error_strategy3_failed n (str x)) st"
  from assms Exec_raises have st': "st' = strategy4 n ?st1"
    by (simp add: strategy3_def split: if_splits)
  show ?thesis
    using strategy4_modules [of n ?st1] strategy4_frame [of n ?st1]
    by (auto simp: st' Exec_raises step_frame_def)
next
  case (Executed ns)
  with assms show ?thesis
    by (auto simp: strategy3_def step_frame_def copy_callables_kind)
qed

lemma strategy2_Inr:
  assumes "strategy2 e n st = Inr st'"
  shows "(\<exists>h. modules st' = AList.update n h (modules st) \<and> kind h = later_kind e n) \<and>
         step_frame st st'"
proof (cases "import_module e n")
  case (Imported a)
  with assms show ?thesis by (auto simp: strategy2_def later_kind_def step_frame_def)
next
  case (Import_raises x)
  let ?st1 = "emit (Warning_strategy2_failed n (str x)) st"
  from assms Import_raises have "strategy3 e n ?st1 = Inr st'"
    by (simp add: strategy2_def split: if_splits)
  from strategy3_Inr [OF this] show ?thesis
    using Import_raises by (auto simp: later_kind_def step_frame_def)
qed

lemma resolve_walker_Inr:
  assumes "resolve_walker e n p st = Inr st'"
  shows "(case import_module e p of
            Imported a \<Rightarrow> modules st' = AList.update n \<lparr>kind = Module, attrs = a\<rparr> (modules st)
          | Import_raises x \<Rightarrow>
              if is_ImportError x
              then (\<exists>h. modules st' = AList.update n h (modules st) \<and> kind h = later_kind e n)
              else modules st' = modules st \<and>
                   Error_unexpected_initializing n (str x) \<in> set (logged st')) \<and>
     walker_map st' = walker_map st \<and> closure_name st' = Some n \<and>
     (\<forall>m. pipeline_runs (logged st') m = pipeline_runs (logged st) m + (if m = n then 1 else 0)) \<and>
     set (logged st) \<subseteq> set (logged st')"
proof (cases "import_module e p")
  case (Imported a)
  with assms show ?thesis by (auto simp: resolve_walker_def)
next
  case (Import_raises x)
  show ?thesis
  proof (cases "is_ImportError x")
    case True
    let ?st1 = "emit (Warning_strategy1_failed n (str x)) (st\<lparr>closure_name := Some n\<rparr>)"
    from assms Import_raises True have "strategy2 e n ?st1 = Inr st'"
      by (simp add: resolve_walker_def)
    from strategy2_Inr [OF this] show ?thesis
      using Import_raises True by (auto simp: step_frame_def)
  next
    case False
    with assms Import_raises show ?thesis
      by (auto simp: resolve_walker_def split: if_splits)
  qed
qed

lemma resolve_walker_escaping:
  "(case escaping e n p of
      Some x \<Rightarrow> resolve_walker e n p st = Inl x
    | None \<Rightarrow> (\<exists>st'. resolve_walker e n p st = Inr st'))"
  by (auto simp: escaping_def resolve_walker_def strategy2_def strategy3_def Let_def
      split: import_outcome.split source_outcome.split)

subsection \<open>The loop of the constructor\<close>

lemma initialize_loop_escaping:
  "(case List.map_filter (\<lambda>(n, p). escaping e n p) items of
      x # xs \<Rightarrow> initialize_loop e items st = Inl x
    | [] \<Rightarrow> (\<exists>st'. initialize_loop e items st = Inr st'))"
proof (induction items arbitrary: st)
  case Nil
  then show ?case by simp
next
  case (Cons item items)
  obtain n p where item: "item = (n, p)" by (cases item)
  show ?case
  proof (cases "escaping e n p")
    case (Some x)
    with resolve_walker_escaping [of e n p st] show ?thesis
      by (simp add: item)
  next
    case None
    with resolve_walker_escaping [of e n p st] obtain st1
      where "resolve_walker e n p st = Inr st1" by auto
    with None Cons.IH [of st1] show ?thesis
      by (auto simp: item split: list.splits)
  qed
qed

lemma initialize_loop_Inr:
  assumes "initialize_loop e items st = Inr st'"
  shows "walker_map st' = walker_map st \<and>
     fst ` set (modules st') =
       fst ` set (modules st) \<union> {n. \<exists>p. (n, p) \<in> set items \<and> \<not> raises_other (import_module e p)} \<and>
     (distinct (map fst (modules st)) \<longrightarrow> distinct (map fst (modules st'))) \<and>
     (\<forall>m. pipeline_runs (logged st') m = pipeline_runs (logged st) m + count_list (map fst items) m) \<and>
     set (logged st) \<subseteq> set (logged st')"
  using assms
proof (induction items arbitrary: st)
  case Nil
  then show ?case by simp
next
  case (Cons item items)
  obtain n p where item: "item = (n, p)" by (cases item)
  from Cons.prems item obtain st1 where s1: "resolve_walker e n p st = Inr st1"
    and rest: "initialize_loop e items st1 = Inr st'"
    by (auto split: sum.splits)
  note r = resolve_walker_Inr [OF s1]
  note ih = Cons.IH [OF rest]
  have upd: "raises_other (import_module e p) \<and> modules st1 = modules st \<or>
      \<not> raises_other (import_module e p) \<and> (\<exists>h. modules st1 = AList.update n h (modules st))"
    using r by (cases "import_module e p") (auto split: if_splits)
  have keys1: "fst ` set (modules st1) =
      fst ` set (modules st) \<union> (if raises_other (import_module e p) then {} else {n})"
  proof (cases "raises_other (import_module e p)")
    case True
    with upd show ?thesis by auto
  next
    case False
    with upd obtain h where "modules st1 = AList.update n h (modules st)" by auto
    with False show ?thesis by (simp add: dom_update)
  qed
  have d1: "distinct (map fst (modules st)) \<longrightarrow> distinct (map fst (modules st1))"
    using upd by (auto simp: distinct_update)
  have "walker_map st' = walker_map st" using ih r by simp
  moreover have "fst ` set (modules st') =
      fst ` set (modules st) \<union>
        {m. \<exists>q. (m, q) \<in> set (item # items) \<and> \<not> raises_other (import_module e q)}"
    using ih keys1 by (auto simp: item)
  moreover have "distinct (map fst (modules st)) \<longrightarrow> distinct (map fst (modules st'))"
    using ih d1 by blast
  moreover have "\<forall>m. pipeline_runs (logged st') m =
      pipeline_runs (logged st) m + count_list (map fst (item # items)) m"
    using ih r by (auto simp: item)
  moreover have "set (logged st) \<subseteq> set (logged st')"
    using ih r by blast
  ultimately show ?case by blast
qed

lemma initialize_loop_other_name:
  assumes "initialize_loop e items st = Inr st'" and "n \<notin> fst ` set items"
  shows "map_of (modules st') n = map_of (modules st) n"
  using assms
proof (induction items arbitrary: st)
  case Nil
  then show ?case by simp
next
  case (Cons item items)
  obtain m p where item: "item = (m, p)" by (cases item)
  from Cons.prems item obtain st1 where s1: "resolve_walker e m p st = Inr st1"
    and rest: "initialize_loop e items st1 = Inr st'"
    by (auto split: sum.splits)
  from Cons.prems item have mn: "m \<noteq> n" and nr: "n \<notin> fst ` set items" by auto
  have "map_of (modules st1) n = map_of (modules st) n"
    using resolve_walker_Inr [OF s1] mn
    by (cases "import_module e p") (auto simp: update_conv' split: if_splits)
  with Cons.IH [OF rest nr] show ?case by simp
qed

lemma initialize_loop_resolved:
  assumes "initialize_loop e items st = Inr st'" and "distinct (map fst items)"
    and "(n, p) \<in> set items"
  shows "resolved e n p st st'"
  using assms
proof (induction items arbitrary: st)
  case Nil
  then show ?case by simp
next
  case (Cons item items)
  obtain m q where item: "item = (m, q)" by (cases item)
  from Cons.prems(1) item obtain st1 where s1: "resolve_walker e m q st = Inr st1"
    and rest: "initialize_loop e items st1 = Inr st'"
    by (auto split: sum.splits)
  from Cons.prems(2) item have mr: "m \<notin> fst ` set items" and dr: "distinct (map fst items)"
    by auto
  note r = resolve_walker_Inr [OF s1]
  show ?case
  proof (cases "(n, p) = (m, q)")
    case True
    have keep: "map_of (modules st') n = map_of (modules st1) n"
      using initialize_loop_other_name [OF rest] mr True by simp
    have logs: "set (logged st1) \<subseteq> set (logged st')"
      using initialize_loop_Inr [OF rest] by simp
    show ?thesis
      using r True keep logs
      by (cases "import_module e q") (auto simp: resolved_def update_conv' split: if_splits)
  next
    case False
    with Cons.prems(3) item have mem: "(n, p) \<in> set items" by auto
    with mr have nm: "n \<noteq> m" by force
    have same: "map_of (modules st1) n = map_of (modules st) n"
      using r nm by (cases "import_module e q") (auto simp: update_conv' split: if_splits)
    from Cons.IH [OF rest dr mem] same show ?thesis
      by (cases "import_module e p") (auto simp: resolved_def split: if_splits)
  qed
qed

subsection \<open>The constructor\<close>

lemma walker_map_default_keys:
  "map fst walker_map_default =
     [''orchestrator'', ''content_curator'', ''quiz_master'', ''evaluator'',
      ''progress_tracker'', ''motivator'']"
  by (simp add: walker_map_default_def)

lemma walker_map_default_distinct: "distinct (map fst walker_map_default)"
  by (simp add: walker_map_default_keys)


lemma JacManager_init_loop:
  "JacManager_init e = initialize_loop e walker_map_default initial_state"
  by (simp add: JacManager_init_def initialize_walkers_def initial_state_def)


lemma get_walker_module_loaded:
  "fst (get_walker_module st n) =
     (case map_of (modules st) n of
        None \<Rightarrow> Inl (ValueError (''Module '' @ n @ '' is not loaded.''))
      | Some h \<Rightarrow> Inr h)"
  by (simp add: get_walker_module_def split: option.split)

text \<open>
  Claim C1, as the code has it, for every world. Strategy 1 falls through to strategy 2
  on \<open>ImportError\<close> only, strategy 2 to strategy 3 on \<open>ImportError\<close> only, strategy 3 to
  the stub on every \<open>Exception\<close>. When for some registered name an exception escapes
  these handlers (\<open>escaping\<close>), the constructor raises the first such exception and
  there is no manager. Otherwise the constructor returns, and for every registered
  name: when strategy 1 imported a module, \<open>get_walker_module\<close> returns that module;
  when strategy 1 raised \<open>ImportError\<close>, it returns a handle of the kind the later
  strategies produce (the stub when strategies 2 and 3 failed too); and when strategy 1
  raised any other \<open>Exception\<close>, the record "Unexpected error initializing" with the
  name and the error's text is in the log, no handle is stored and \<open>get_walker_module\<close>
  raises \<open>ValueError\<close>.
\<close>

theorem init_resolves_registered_names:
  "(case List.map_filter (\<lambda>(n, p). escaping e n p) walker_map_default of
      x # xs \<Rightarrow> JacManager_init e = Inl x
    | [] \<Rightarrow>
        (\<exists>st. JacManager_init e = Inr st \<and>
           (\<forall>(n, p) \<in> set walker_map_default.
              case import_module e p of
                Imported a \<Rightarrow>
                  fst (get_walker_module st n) = Inr \<lparr>kind = Module, attrs = a\<rparr>
              | Import_raises x \<Rightarrow>
                  if is_ImportError x
                  then (\<exists>h. fst (get_walker_module st n) = Inr h \<and> kind h = later_kind e n)
                  else Error_unexpected_initializing n (str x) \<in> set (logged st) \<and>
                       fst (get_walker_module st n) =
                         Inl (ValueError (''Module '' @ n @ '' is not loaded.'')))))"
proof (cases "List.map_filter (\<lambda>(n, p). escaping e n p) walker_map_default")
  case (Cons x xs)
  with initialize_loop_escaping [of e walker_map_default initial_state]
  show ?thesis by (simp add: JacManager_init_loop)
next
  case Nil
  with initialize_loop_escaping [of e walker_map_default initial_state]
  obtain st where st: "initialize_loop e walker_map_default initial_state = Inr st"
    by auto
  have "case import_module e p of
          Imported a \<Rightarrow> fst (get_walker_module st n) = Inr \<lparr>kind = Module, attrs = a\<rparr>
        | Import_raises x \<Rightarrow>
            if is_ImportError x
            then (\<exists>h. fst (get_walker_module st n) = Inr h \<and> kind h = later_kind e n)
            else Error_unexpected_initializing n (str x) \<in> set (logged st) \<and>
                 fst (get_walker_module st n) =
                   Inl (ValueError (''Module '' @ n @ '' is not loaded.''))"
    if np: "(n, p) \<in> set walker_map_default" for n p
    using initialize_loop_resolved [OF st walker_map_default_distinct np]
    by (cases "import_module e p")
      (auto simp: resolved_def get_walker_module_loaded initial_state_def)
  then have "\<forall>(n, p) \<in> set walker_map_default.
      case import_module e p of
        Imported a \<Rightarrow> fst (get_walker_module st n) = Inr \<lparr>kind = Module, attrs = a\<rparr>
      | Import_raises x \<Rightarrow>
          if is_ImportError x
          then (\<exists>h. fst (get_walker_module st n) = Inr h \<and> kind h = later_kind e n)
          else Error_unexpected_initializing n (str x) \<in> set (logged st) \<and>
               fst (get_walker_module st n) =
                 Inl (ValueError (''Module '' @ n @ '' is not loaded.''))"
    by blast
  with st have "\<exists>st. JacManager_init e = Inr st \<and>
      (\<forall>(n, p) \<in> set walker_map_default.
      case import_module e p of
        Imported a \<Rightarrow> fst (get_walker_module st n) = Inr \<lparr>kind = Module, attrs = a\<rparr>
      | Import_raises x \<Rightarrow>
          if is_ImportError x
          then (\<exists>h. fst (get_walker_module st n) = Inr h \<and> kind h = later_kind e n)
          else Error_unexpected_initializing n (str x) \<in> set (logged st) \<and>
               fst (get_walker_module st n) =
                 Inl (ValueError (''Module '' @ n @ '' is not loaded.'')))"
    unfolding JacManager_init_loop by blast
  with Nil show ?thesis by simp
qed

text \<open>
  In the world where nothing can be loaded nothing escapes, and the last name has the
  stub.
\<close>

theorem init_resolves_registered_names_witness:
  "\<exists>st. JacManager_init env_nothing_present = Inr st \<and>
      (\<exists>h. fst (get_walker_module st ''motivator'') = Inr h \<and> kind h = DummyWalkerModule)"
proof -
  have "List.map_filter (\<lambda>(n, p). escaping env_nothing_present n p) walker_map_default = []"
    by code_simp
  with init_resolves_registered_names [of env_nothing_present]
  obtain st where st: "JacManager_init env_nothing_present = Inr st"
    and every: "\<forall>(n, p) \<in> set walker_map_default.
              case import_module env_nothing_present p of
                Imported a \<Rightarrow>
                  fst (get_walker_module st n) = Inr \<lparr>kind = Module, attrs = a\<rparr>
              | Import_raises x \<Rightarrow>
                  if is_ImportError x
                  then (\<exists>h. fst (get_walker_module st n) = Inr h \<and>
                            kind h = later_kind env_nothing_present n)
                  else Error_unexpected_initializing n (str x) \<in> set (logged st) \<and>
                       fst (get_walker_module st n) =
                         Inl (ValueError (''Module '' @ n @ '' is not loaded.''))"
    by auto
  have "(''motivator'', ''jac_layer.walkers.motivator'') \<in> set walker_map_default"
    by (simp add: walker_map_default_def)
  with every have "\<exists>h. fst (get_walker_module st ''motivator'') = Inr h \<and>
      kind h = later_kind env_nothing_present ''motivator''"
    by (auto simp: env_nothing_present_def)
  moreover have "later_kind env_nothing_present ''motivator'' = DummyWalkerModule"
    by (simp add: later_kind_def env_nothing_present_def)
  ultimately show ?thesis using st by auto
qed

text \<open>
  Claim C1 as stated fails twice. The orchestrator is registered; when its import
  raises an exception that is not an \<open>ImportError\<close>, the constructor returns and
  \<open>get_walker_module\<close> raises for that name; and when strategy 2 raises such an
  exception, the constructor itself raises it.
\<close>

theorem unexpected_error_leaves_name_unresolved:
  "(''orchestrator'', ''jac_layer.walkers.orchestrator'') \<in> set walker_map_default \<and>
   (case JacManager_init env_orchestrator_rejected of
      Inl x \<Rightarrow> False
    | Inr st \<Rightarrow> fst (get_walker_module st ''orchestrator'') =
                 Inl (ValueError ''Module orchestrator is not loaded.'')) \<and>
   (case JacManager_init env_strategy2_breaks of
      Inl x \<Rightarrow> x = OtherException ''invalid syntax''
    | Inr st \<Rightarrow> False)"
  by code_simp

subsection \<open>What the public methods leave of the state\<close>

lemma get_walker_module_state [simp]: "snd (get_walker_module st n) = st"
  by (simp add: get_walker_module_def split: option.split)

lemma get_available_functions_state [simp]: "snd (get_available_functions st n) = st"
  by (simp add: get_available_functions_def split: option.split)

lemma get_available_walkers_state [simp]: "snd (get_available_walkers st) = st"
  by (simp add: get_available_walkers_def)



lemma execute_walker_snd:
  "snd (execute_walker e st n ps) =
     (let r = execute_walker_try e st n (case ps of None \<Rightarrow> [] | Some p \<Rightarrow> p) in
      case fst r of
        Inl x \<Rightarrow> if is_Exception x then emit (Error_executing_walker n (str x)) (snd r) else snd r
      | Inr d \<Rightarrow> snd r)"
  by (simp add: execute_walker_def Let_def split: prod.split sum.split)


lemma execute_walker_modules:
  "modules (snd (execute_walker e st n ps)) =
   modules (snd (execute_walker_try e st n (case ps of None \<Rightarrow> [] | Some p \<Rightarrow> p)))"
  by (simp add: execute_walker_snd Let_def split: sum.split)

lemma health_lines_frame:
  "modules (health_lines ns st) = modules st \<and>
   walker_map (health_lines ns st) = walker_map st \<and>
   closure_name (health_lines ns st) = closure_name st \<and>
   closure_method_name (health_lines ns st) = closure_method_name st \<and>
   pipeline_runs (logged (health_lines ns st)) m = pipeline_runs (logged st) m"
  by (induction ns arbitrary: st) simp_all

lemma health_check_frame:
  "modules (snd (health_check st)) = modules st \<and>
   walker_map (snd (health_check st)) = walker_map st \<and>
   closure_name (snd (health_check st)) = closure_name st \<and>
   closure_method_name (snd (health_check st)) = closure_method_name st \<and>
   pipeline_runs (logged (snd (health_check st))) m = pipeline_runs (logged st) m"
  by (simp add: health_check_def Let_def health_lines_frame)






subsection \<open>Example states\<close>





lemma all_importable_modules:
  "modules (projr (JacManager_init env_all_importable)) =
     map (\<lambda>n. (n, \<lparr>kind = Module,
                    attrs = [(''init_user_graph'', PyFunction ''init_user_graph''),
                             (''start_lesson_sequence'', PyFunction ''start_lesson_sequence'')]\<rparr>))
       [''orchestrator'', ''content_curator'', ''quiz_master'', ''evaluator'',
        ''progress_tracker'', ''motivator'']"
  by (simp add: JacManager_init_def initialize_walkers_def walker_map_default_def
      resolve_walker_def env_all_importable_def)

lemma all_importable_orchestrator:
  "map_of (modules (projr (JacManager_init env_all_importable))) ''orchestrator'' =
     Some \<lparr>kind = Module,
           attrs = [(''init_user_graph'', PyFunction ''init_user_graph''),
                    (''start_lesson_sequence'', PyFunction ''start_lesson_sequence'')]\<rparr>"
  by (simp add: all_importable_modules)

lemma nothing_present_orchestrator:
  "map_of (modules (projr (JacManager_init env_nothing_present))) ''orchestrator'' =
     Some \<lparr>kind = DummyWalkerModule,
           attrs = [(''init_user_graph'', FallbackMethod),
                    (''start_lesson_sequence'', FallbackMethod),
                    (''coordinate_learning_workflow'', FallbackMethod)]\<rparr>"
  by code_simp

lemma selected_init_user_graph:
  "selected_function_name ''orchestrator''
     \<lparr>kind = Module,
      attrs = [(''init_user_graph'', PyFunction ''init_user_graph''),
               (''start_lesson_sequence'', PyFunction ''start_lesson_sequence'')]\<rparr> =
   Some ''init_user_graph''"
  by code_simp

subsection \<open>The result of \<open>execute_walker\<close>\<close>

lemma fallback_method_emit [simp]: "fallback_method (emit r st) kw = fallback_method st kw"
  by (simp add: fallback_method_def split: option.split)

lemma call_attr_emit [simp]: "call_attr e (emit r st) a kw = call_attr e st a kw"
  by (cases a) simp_all

lemma public_callables_getattr:
  "f \<in> set (public_callables h) \<Longrightarrow> \<exists>a. getattr h f = Some a"
  by (auto simp: public_callables_def split: option.splits)

lemma selected_function_name_getattr:
  assumes "selected_function_name n h = Some f"
  shows "\<exists>a. getattr h f = Some a"
proof (cases "hasattr h (default_function_name n)")
  case True
  with assms show ?thesis by (auto simp: selected_function_name_def hasattr_def)
next
  case False
  with assms obtain fs where "public_callables h = f # fs"
    by (auto simp: selected_function_name_def split: list.splits)
  then have "f \<in> set (public_callables h)" by simp
  then show ?thesis by (rule public_callables_getattr)
qed

lemma call_walker_function_result:
  assumes "getattr h f = Some a"
  shows "fst (call_walker_function e st n h f kw) =
     (case fst (call_attr e st a kw) of
        Inl x \<Rightarrow> Inl x
      | Inr d \<Rightarrow> Inr [(''status'', VStr ''success''), (''data'', d),
                       (''walker_name'', VStr n), (''function_called'', VStr f)])"
    and "modules (snd (call_walker_function e st n h f kw)) = snd (call_attr e st a kw)"
  using assms by (simp_all add: call_walker_function_def split: sum.split prod.split)

lemma execute_walker_try_result:
  assumes "map_of (modules st) n = Some h"
  shows "fst (execute_walker_try e st n kw) =
     (case selected_function_name n h of
        None \<Rightarrow> Inl (ValueError (''No callable functions found in module '' @ quoted n))
      | Some f \<Rightarrow>
          (case getattr h f of
             None \<Rightarrow> Inl (AttributeError f)
           | Some a \<Rightarrow>
               (case fst (call_attr e st a kw) of
                  Inl x \<Rightarrow> Inl x
                | Inr d \<Rightarrow> Inr [(''status'', VStr ''success''), (''data'', d),
                                 (''walker_name'', VStr n), (''function_called'', VStr f)])))"
    and "modules (snd (execute_walker_try e st n kw)) =
     (case selected_function_name n h of
        None \<Rightarrow> modules st
      | Some f \<Rightarrow>
          (case getattr h f of
             None \<Rightarrow> modules st
           | Some a \<Rightarrow> snd (call_attr e st a kw)))"
proof -
  show "fst (execute_walker_try e st n kw) =
     (case selected_function_name n h of
        None \<Rightarrow> Inl (ValueError (''No callable functions found in module '' @ quoted n))
      | Some f \<Rightarrow>
          (case getattr h f of
             None \<Rightarrow> Inl (AttributeError f)
           | Some a \<Rightarrow>
               (case fst (call_attr e st a kw) of
                  Inl x \<Rightarrow> Inl x
                | Inr d \<Rightarrow> Inr [(''status'', VStr ''success''), (''data'', d),
                                 (''walker_name'', VStr n), (''function_called'', VStr f)])))"
  proof (cases "selected_function_name n h")
    case None
    then show ?thesis using assms
      by (simp add: execute_walker_try_def selected_function_name_def Let_def
          split: if_splits list.splits)
  next
    case (Some f)
    then obtain a where a: "getattr h f = Some a"
      using selected_function_name_getattr by blast
    show ?thesis
    proof (cases "hasattr h (default_function_name n)")
      case True
      with Some have "f = default_function_name n" by (simp add: selected_function_name_def)
      with True assms a Some show ?thesis
        by (simp add: execute_walker_try_def Let_def call_walker_function_result)
    next
      case False
      with Some obtain fs where "public_callables h = f # fs"
        by (auto simp: selected_function_name_def split: list.splits)
      with False assms a Some show ?thesis
        by (simp add: execute_walker_try_def Let_def call_walker_function_result)
    qed
  qed
  show "modules (snd (execute_walker_try e st n kw)) =
     (case selected_function_name n h of
        None \<Rightarrow> modules st
      | Some f \<Rightarrow>
          (case getattr h f of
             None \<Rightarrow> modules st
           | Some a \<Rightarrow> snd (call_attr e st a kw)))"
  proof (cases "selected_function_name n h")
    case None
    then show ?thesis using assms
      by (simp add: execute_walker_try_def selected_function_name_def Let_def
          split: if_splits list.splits)
  next
    case (Some f)
    then obtain a where a: "getattr h f = Some a"
      using selected_function_name_getattr by blast
    show ?thesis
    proof (cases "hasattr h (default_function_name n)")
      case True
      with Some have "f = default_function_name n" by (simp add: selected_function_name_def)
      with True assms a Some show ?thesis
        by (simp add: execute_walker_try_def Let_def call_walker_function_result)
    next
      case False
      with Some obtain fs where "public_callables h = f # fs"
        by (auto simp: selected_function_name_def split: list.splits)
      with False assms a Some show ?thesis
        by (simp add: execute_walker_try_def Let_def call_walker_function_result)
    qed
  qed
qed

lemma execute_walker_try_unloaded:
  assumes "map_of (modules st) n = None"
  shows "execute_walker_try e st n kw =
     (Inl (ValueError (''Walker module '' @ quoted n @ '' is not loaded.'')), st)"
  using assms by (simp add: execute_walker_try_def)

lemma execute_walker_fst:
  "fst (execute_walker e st n ps) =
     (case fst (execute_walker_try e st n (case ps of None \<Rightarrow> [] | Some p \<Rightarrow> p)) of
        Inl x \<Rightarrow> if is_Exception x then Inr (error_result (str x) n) else Inl x
      | Inr d \<Rightarrow> Inr d)"
  by (simp add: execute_walker_def split: prod.split sum.split)

lemma call_attr_raises_outside_Exception:
  assumes "fst (call_attr e st a kw) = Inl x" and "\<not> is_Exception x"
  shows "\<exists>g. a = PyFunction g"
  using assms by (cases a) (auto simp: fallback_method_def split: option.splits)

subsection \<open>Names that were never registered\<close>




subsection \<open>Which function \<open>execute_walker\<close> calls\<close>

text \<open>
  Claim C4, as the code has it. \<open>execute_walker\<close> has no operation hint. For a cached
  module it calls the function \<open>selected_function_name\<close> gives: the default of the walker
  when the module has an attribute of that name, else the first public callable in the
  order of \<open>dir\<close>. The result is the success dictionary with that name as
  \<open>function_called\<close> when the call returns, the error result with the exception's text
  when it raises an \<open>Exception\<close>, and the exception itself when it raises anything
  else; when there is no function to select, the result is the error result
  "No callable functions found in module '<name>'".
\<close>

theorem execute_walker_selection:
  assumes "map_of (modules st) n = Some h"
  shows "(selected_function_name n h = None \<longrightarrow>
            fst (execute_walker e st n ps) =
              Inr (error_result (''No callable functions found in module '' @ quoted n) n)) \<and>
         (\<forall>f. selected_function_name n h = Some f \<longrightarrow>
            (\<exists>a. getattr h f = Some a \<and>
               fst (execute_walker e st n ps) =
                 (case fst (call_attr e st a (case ps of None \<Rightarrow> [] | Some p \<Rightarrow> p)) of
                    Inl x \<Rightarrow> if is_Exception x then Inr (error_result (str x) n) else Inl x
                  | Inr d \<Rightarrow> Inr [(''status'', VStr ''success''), (''data'', d),
                                   (''walker_name'', VStr n), (''function_called'', VStr f)])))"
proof (intro conjI allI impI)
  assume "selected_function_name n h = None"
  then show "fst (execute_walker e st n ps) =
      Inr (error_result (''No callable functions found in module '' @ quoted n) n)"
    by (simp add: execute_walker_fst execute_walker_try_result(1) [OF assms])
next
  fix f
  assume f: "selected_function_name n h = Some f"
  then obtain a where a: "getattr h f = Some a"
    using selected_function_name_getattr by blast
  have "fst (execute_walker e st n ps) =
      (case fst (call_attr e st a (case ps of None \<Rightarrow> [] | Some p \<Rightarrow> p)) of
         Inl x \<Rightarrow> if is_Exception x then Inr (error_result (str x) n) else Inl x
       | Inr d \<Rightarrow> Inr [(''status'', VStr ''success''), (''data'', d),
                        (''walker_name'', VStr n), (''function_called'', VStr f)])"
    by (simp add: execute_walker_fst execute_walker_try_result(1) [OF assms] f a split: sum.split)
  with a show "\<exists>a. getattr h f = Some a \<and>
      fst (execute_walker e st n ps) =
        (case fst (call_attr e st a (case ps of None \<Rightarrow> [] | Some p \<Rightarrow> p)) of
           Inl x \<Rightarrow> if is_Exception x then Inr (error_result (str x) n) else Inl x
         | Inr d \<Rightarrow> Inr [(''status'', VStr ''success''), (''data'', d),
                          (''walker_name'', VStr n), (''function_called'', VStr f)])"
    by blast
qed

text \<open>
  With every module importable, the orchestrator's default \<open>init_user_graph\<close> is called.
\<close>

theorem execute_walker_selection_witness:
  "fst (execute_walker env_all_importable (projr (JacManager_init env_all_importable))
          ''orchestrator'' (Some [(''x'', VInt 1)])) =
     Inr [(''status'', VStr ''success''), (''data'', VDict [(''x'', VInt 1)]),
          (''walker_name'', VStr ''orchestrator''),
          (''function_called'', VStr ''init_user_graph'')]"
  using execute_walker_selection [OF all_importable_orchestrator,
      of env_all_importable "Some [(''x'', VInt 1)]"]
  by (auto simp: selected_init_user_graph getattr_def env_all_importable_def)

text \<open>
  Claim C4 as stated fails: the orchestrator's module exposes \<open>start_lesson_sequence\<close>,
  so the rule of the specification selects it for that hint, while \<open>execute_walker\<close>,
  which takes a name and parameters only, calls \<open>init_user_graph\<close>.
\<close>

theorem operation_hint_is_not_read:
  "(case JacManager_init env_all_importable of
      Inl x \<Rightarrow> False
    | Inr st \<Rightarrow>
        (case map_of (modules st) ''orchestrator'' of
           None \<Rightarrow> False
         | Some h \<Rightarrow>
             spec_select_operation (Some ''start_lesson_sequence'') ''orchestrator'' h =
               Some ''start_lesson_sequence'' \<and>
             fst (execute_walker env_all_importable st ''orchestrator'' (Some [])) =
               Inr [(''status'', VStr ''success''), (''data'', VDict []),
                    (''walker_name'', VStr ''orchestrator''),
                    (''function_called'', VStr ''init_user_graph'')]))"
  by code_simp

subsection \<open>Exceptions of the called function\<close>

text \<open>
  Claim C5, as the code has it. For a cached name and any parameters (\<open>None\<close>
  included), when the call of the selected function raises \<open>x\<close>: if \<open>x\<close> is an instance
  of \<open>Exception\<close>, \<open>execute_walker\<close> does not raise, it returns the dictionary with status
  \<open>error\<close>, the text \<open>str(x)\<close> as message and the walker's name; if \<open>x\<close> is not (a
  \<open>SystemExit\<close>, a \<open>KeyboardInterrupt\<close>), \<open>except Exception\<close> does not catch it and
  \<open>execute_walker\<close> raises \<open>x\<close> to its caller.
\<close>

theorem execute_walker_catches_exception:
  assumes "map_of (modules st) n = Some h"
    and "selected_function_name n h = Some f"
    and "getattr h f = Some a"
    and "fst (call_attr e st a (case ps of None \<Rightarrow> [] | Some p \<Rightarrow> p)) = Inl x"
  shows "fst (execute_walker e st n ps) =
     (if is_Exception x then Inr (error_result (str x) n) else Inl x)"
  using assms(2-4)
  by (simp add: execute_walker_fst execute_walker_try_result(1) [OF assms(1)])

text \<open>
  The scenario of the specification: the function raises \<open>ValueError("boom")\<close>.
\<close>

theorem execute_walker_catches_exception_witness:
  "fst (execute_walker env_boom (projr (JacManager_init env_all_importable))
          ''orchestrator'' None) =
     Inr [(''status'', VStr ''error''), (''message'', VStr ''boom''),
          (''walker_name'', VStr ''orchestrator'')]"
proof -
  have "getattr \<lparr>kind = Module,
           attrs = [(''init_user_graph'', PyFunction ''init_user_graph''),
                    (''start_lesson_sequence'', PyFunction ''start_lesson_sequence'')]\<rparr>
         ''init_user_graph'' = Some (PyFunction ''init_user_graph'')"
    by (simp add: getattr_def)
  moreover have "fst (call_attr env_boom (projr (JacManager_init env_all_importable))
      (PyFunction ''init_user_graph'') (case None of None \<Rightarrow> [] | Some p \<Rightarrow> p)) =
      Inl (ValueError ''boom'')"
    by (simp add: env_boom_def)
  ultimately show ?thesis
    using execute_walker_catches_exception [OF all_importable_orchestrator
        selected_init_user_graph, of "PyFunction ''init_user_graph''" env_boom None
        "ValueError ''boom''"]
    by (simp add: error_result_def)
qed

text \<open>
  Claim C5 as stated fails: the orchestrator's function ends in \<open>sys.exit("bye")\<close>, and
  \<open>execute_walker\<close> raises that \<open>SystemExit\<close> instead of returning an error result.
\<close>

theorem system_exit_reaches_the_caller:
  "(case JacManager_init env_all_importable of
      Inl x \<Rightarrow> False
    | Inr st \<Rightarrow>
        (case fst (execute_walker env_exit st ''orchestrator'' None) of
           Inl x \<Rightarrow> x = SystemExit ''bye''
         | Inr d \<Rightarrow> False))"
  by code_simp

subsection \<open>When \<open>execute_walker\<close> returns\<close>

lemma execute_walker_try_success:
  assumes "fst (execute_walker_try e st n kw) = Inr d"
  shows "map_of d ''status'' = Some (VStr ''success'')"
proof (cases "map_of (modules st) n")
  case None
  with assms show ?thesis by (simp add: execute_walker_try_unloaded)
next
  case (Some h)
  from assms show ?thesis
    unfolding execute_walker_try_result(1) [OF Some]
    by (auto split: option.splits sum.splits)
qed

lemma execute_walker_try_raises_outside_Exception:
  assumes "fst (execute_walker_try e st n kw) = Inl x" and "\<not> is_Exception x"
  shows "\<exists>h f g. map_of (modules st) n = Some h \<and> selected_function_name n h = Some f \<and>
     getattr h f = Some (PyFunction g) \<and> fst (call_function e g kw (modules st)) = Inl x"
proof (cases "map_of (modules st) n")
  case None
  with assms show ?thesis by (auto simp: execute_walker_try_unloaded)
next
  case (Some h)
  from assms(1) have r: "(case selected_function_name n h of
        None \<Rightarrow> Inl (ValueError (''No callable functions found in module '' @ quoted n))
      | Some f \<Rightarrow>
          (case getattr h f of
             None \<Rightarrow> Inl (AttributeError f)
           | Some a \<Rightarrow>
               (case fst (call_attr e st a kw) of
                  Inl x \<Rightarrow> Inl x
                | Inr d \<Rightarrow> Inr [(''status'', VStr ''success''), (''data'', d),
                                 (''walker_name'', VStr n), (''function_called'', VStr f)]))) = Inl x"
    unfolding execute_walker_try_result(1) [OF Some] .
  with assms(2) obtain f a where f: "selected_function_name n h = Some f"
    and a: "getattr h f = Some a" and c: "fst (call_attr e st a kw) = Inl x"
    by (auto split: option.splits sum.splits)
  from call_attr_raises_outside_Exception [OF c assms(2)] obtain g where "a = PyFunction g" ..
  with Some f a c show ?thesis by auto
qed

text \<open>
  Claim C9, as the code has it. For every state, every walker name (registered or not)
  and every parameters argument (a dictionary or \<open>None\<close>), one of two things happens.
  Either \<open>execute_walker\<close> returns a dictionary whose \<open>status\<close> is \<open>success\<close> or \<open>error\<close>.
  Or it raises, and then what it raises is not an instance of \<open>Exception\<close> and was
  raised by the loaded function that it selected and called for a cached module.
\<close>

theorem execute_walker_total:
  "(\<exists>d. fst (execute_walker e st n ps) = Inr d \<and>
        (map_of d ''status'' = Some (VStr ''success'') \<or>
         map_of d ''status'' = Some (VStr ''error''))) \<or>
   (\<exists>x h f g. fst (execute_walker e st n ps) = Inl x \<and> \<not> is_Exception x \<and>
        map_of (modules st) n = Some h \<and> selected_function_name n h = Some f \<and>
        getattr h f = Some (PyFunction g) \<and>
        fst (call_function e g (case ps of None \<Rightarrow> [] | Some p \<Rightarrow> p) (modules st)) = Inl x)"
proof (cases "fst (execute_walker_try e st n (case ps of None \<Rightarrow> [] | Some p \<Rightarrow> p))")
  case (Inl x)
  show ?thesis
  proof (cases "is_Exception x")
    case True
    with Inl show ?thesis by (simp add: execute_walker_fst error_result_def)
  next
    case False
    from execute_walker_try_raises_outside_Exception [OF Inl False] Inl False
    show ?thesis by (auto simp: execute_walker_fst)
  qed
next
  case (Inr d)
  with execute_walker_try_success [OF Inr] show ?thesis by (simp add: execute_walker_fst)
qed

text \<open>
  Claim C9 as stated fails: with a loaded function that ends in \<open>sys.exit("bye")\<close>,
  \<open>execute_walker\<close> raises \<open>SystemExit\<close> to its caller.
\<close>

theorem execute_walker_can_raise:
  "(case JacManager_init env_all_importable of
      Inl x \<Rightarrow> False
    | Inr st \<Rightarrow>
        (case fst (execute_walker env_exit st ''motivator'' (Some [(''x'', VInt 1)])) of
           Inl x \<Rightarrow> x = SystemExit ''bye'' \<and> \<not> is_Exception x
         | Inr d \<Rightarrow> False))"
  by code_simp

subsection \<open>The cache after invocation and introspection\<close>

lemma execute_walker_modules_result:
  "modules (snd (execute_walker e st n ps)) =
     (case map_of (modules st) n of
        None \<Rightarrow> modules st
      | Some h \<Rightarrow>
          (case selected_function_name n h of
             None \<Rightarrow> modules st
           | Some f \<Rightarrow>
               (case getattr h f of
                  None \<Rightarrow> modules st
                | Some a \<Rightarrow> snd (call_attr e st a (case ps of None \<Rightarrow> [] | Some p \<Rightarrow> p)))))"
proof (cases "map_of (modules st) n")
  case None
  then show ?thesis by (simp add: execute_walker_modules execute_walker_try_unloaded)
next
  case (Some h)
  then show ?thesis
    by (simp add: execute_walker_modules execute_walker_try_result(2) [OF Some])
qed

text \<open>
  Claim C10, as the code has it. \<open>get_available_functions\<close> and the other methods that
  only read leave \<open>self.modules\<close> as it was. \<open>execute_walker\<close> has no assignment to it of
  its own: afterwards the cache is as it was when no function was called, when the
  function was a fallback method, and when the call of an object that is not callable
  failed; after the call of a loaded function it is the cache that function left.
\<close>

theorem cache_after_invocation_and_introspection:
  "modules (snd (get_available_functions st n)) = modules st \<and>
   modules (snd (get_walker_module st n)) = modules st \<and>
   modules (snd (get_available_walkers st)) = modules st \<and>
   modules (snd (health_check st)) = modules st \<and>
   modules (snd (execute_walker e st n ps)) =
     (case map_of (modules st) n of
        None \<Rightarrow> modules st
      | Some h \<Rightarrow>
          (case selected_function_name n h of
             None \<Rightarrow> modules st
           | Some f \<Rightarrow>
               (case getattr h f of
                  None \<Rightarrow> modules st
                | Some (PyFunction g) \<Rightarrow>
                    snd (call_function e g (case ps of None \<Rightarrow> [] | Some p \<Rightarrow> p) (modules st))
                | Some FallbackMethod \<Rightarrow> modules st
                | Some (NonCallable t) \<Rightarrow> modules st)))"
proof -
  have "modules (snd (health_check st)) = modules st"
    using health_check_frame [of st] by simp
  moreover have "modules (snd (execute_walker e st n ps)) =
     (case map_of (modules st) n of
        None \<Rightarrow> modules st
      | Some h \<Rightarrow>
          (case selected_function_name n h of
             None \<Rightarrow> modules st
           | Some f \<Rightarrow>
               (case getattr h f of
                  None \<Rightarrow> modules st
                | Some (PyFunction g) \<Rightarrow>
                    snd (call_function e g (case ps of None \<Rightarrow> [] | Some p \<Rightarrow> p) (modules st))
                | Some FallbackMethod \<Rightarrow> modules st
                | Some (NonCallable t) \<Rightarrow> modules st)))"
    unfolding execute_walker_modules_result
    by (simp split: option.split attr_value.split)
  ultimately show ?thesis by simp
qed

text \<open>
  Claim C10 as stated fails: the orchestrator's function empties the manager's
  \<open>modules\<close> and returns; \<open>execute_walker\<close> reports success and the six names are gone
  from the cache.
\<close>

theorem loaded_function_can_empty_cache:
  "(case JacManager_init env_all_importable of
      Inl x \<Rightarrow> False
    | Inr st \<Rightarrow>
        map fst (modules st) =
          [''orchestrator'', ''content_curator'', ''quiz_master'', ''evaluator'',
           ''progress_tracker'', ''motivator''] \<and>
        modules (snd (execute_walker env_clears_cache st ''orchestrator'' None)) = [] \<and>
        fst (execute_walker env_clears_cache st ''orchestrator'' None) =
          Inr [(''status'', VStr ''success''), (''data'', VNone),
               (''walker_name'', VStr ''orchestrator''),
               (''function_called'', VStr ''init_user_graph'')])"
  by code_simp

subsection \<open>Repeated lookups\<close>





subsection \<open>\<open>reload_walkers\<close>\<close>













subsection \<open>\<open>health_check\<close>\<close>

lemma health_lines_logged:
  "logged (health_lines ns st) =
     logged st @ map (\<lambda>n. if map_of (modules st) n \<noteq> None then Info_health_loaded n
                            else Warning_health_not_loaded n) ns"
  by (induction ns arbitrary: st) simp_all

text \<open>
  Claim C8, as the code has it. \<open>health_check\<close> returns one boolean, true exactly when
  at least one handle is cached, and leaves the cache as it was. Whether each registered
  name is cached goes to the log only, one record for each name after a summary line; a
  name counts as loaded when any handle is cached under it, a fallback stub as much as a
  real module.
\<close>

theorem health_check_returns_one_boolean:
  "fst (health_check st) = Inr (modules st \<noteq> []) \<and>
   modules (snd (health_check st)) = modules st \<and>
   logged (snd (health_check st)) =
     logged st @
       (if modules st = [] then [Warning_health_no_walkers]
        else Info_health_check (length (modules st)) (length (walker_map st)) #
             map (\<lambda>n. if map_of (modules st) n \<noteq> None then Info_health_loaded n
                       else Warning_health_not_loaded n)
               (map fst (walker_map st)))"
  by (simp add: health_check_def Let_def health_lines_frame health_lines_logged)

text \<open>
  With six fallback stubs cached the result is \<open>True\<close>.
\<close>

theorem health_check_returns_one_boolean_witness:
  "fst (health_check (projr (JacManager_init env_nothing_present))) = Inr True"
proof -
  have "modules (projr (JacManager_init env_nothing_present)) \<noteq> []"
    using nothing_present_orchestrator by auto
  with health_check_returns_one_boolean [of "projr (JacManager_init env_nothing_present)"]
  show ?thesis by simp
qed

text \<open>
  Claim C8 as stated fails: after one construction the orchestrator is not cached,
  after another it is (as a stub), and \<open>health_check\<close> returns the same value \<open>True\<close>
  for both, so what it returns does not say which registered names are present.
\<close>

theorem health_check_hides_missing_name:
  "(case JacManager_init env_orchestrator_rejected of
      Inl x \<Rightarrow> False
    | Inr a \<Rightarrow>
        (case JacManager_init env_nothing_present of
           Inl x \<Rightarrow> False
         | Inr b \<Rightarrow>
             map_of (modules a) ''orchestrator'' = None \<and>
             map_option kind (map_of (modules b) ''orchestrator'') = Some DummyWalkerModule \<and>
             fst (health_check a) = Inr True \<and>
             fst (health_check b) = Inr True))"
  by code_simp

subsection \<open>What a fallback method reports\<close>

text \<open>
  Claim C3 at a concrete input, where the code departs from it. Nothing can be loaded,
  so every name gets a dummy module. The dummy of the orchestrator exposes exactly the
  three names of its row of \<open>fallback_methods\<close>, and the parameters come back in the
  result. But the method that \<open>execute_walker\<close> calls is \<open>init_user_graph\<close> of the
  orchestrator, and the result names the method \<open>track_achievements\<close> of the walker
  \<open>motivator\<close>: every \<open>fallback_method\<close> reads the loop variables \<open>name\<close> and \<open>method_name\<close>
  when it is called, and by then they hold the last values the loops gave them.
\<close>

theorem fallback_method_reports_last_loop_values:
  "(case JacManager_init env_nothing_present of
      Inl x \<Rightarrow> False
    | Inr st \<Rightarrow>
        fst (get_available_functions st ''orchestrator'') =
          Inr [''coordinate_learning_workflow'', ''init_user_graph'', ''start_lesson_sequence''] \<and>
        fst (execute_walker env_nothing_present st ''orchestrator'' (Some [(''x'', VInt 1)])) =
          Inr [(''status'', VStr ''success''),
               (''data'',
                VDict [(''status'', VStr ''fallback''),
                       (''walker'', VStr ''motivator''),
                       (''method'', VStr ''track_achievements''),
                       (''message'', VStr ''Walker motivator is running in fallback mode''),
                       (''parameters'', VDict [(''x'', VInt 1)]),
                       (''timestamp'', VStr ''2025-12-04T17:47:44Z'')]),
               (''walker_name'', VStr ''orchestrator''),
               (''function_called'', VStr ''init_user_graph'')])"
  by code_simp

end
